theory Spec2Isabelle
  imports Complex_Main
begin

section \<open>CNT Explorer: the formula layer of app.py\<close>

text \<open>
  The script app.py is one top-to-bottom pass: it reads six widget values and evaluates
  closed-form expressions over them. Each expression is embedded here under the name the
  script gives it. Python \<open>int\<close> is \<open>int\<close>; Python \<open>float\<close> is \<open>real\<close>. The
  arithmetic is the exact one, except in the resistance lines, whose claim turns on
  rounding: there every operation is rounded to double precision. The one way the
  arithmetic of the script can raise is the true division of two floats by a zero
  divisor, so that division returns a sum type. Reading a matrix outside its shape is the
  other error of the model.
\<close>

subsection \<open>Errors and division\<close>

datatype error = ZeroDivisionError | IndexError

text \<open>\<open>x / y\<close> on Python floats: raises on a zero divisor.\<close>

definition py_truediv :: "real \<Rightarrow> real \<Rightarrow> error + real" where
  "py_truediv x y = (if y = 0 then Inl ZeroDivisionError else Inr (x / y))"

subsection \<open>Sidebar inputs and tube geometry (lines 16-23)\<close>

text \<open>
  \<open>number_input("Chirality n", min_value=1, max_value=200)\<close> and
  \<open>number_input("Chirality m", min_value=0, max_value=200)\<close>: the values the widgets
  can hand to the script.
\<close>

definition chirality_inputs :: "int \<Rightarrow> int \<Rightarrow> bool" where
  "chirality_inputs n m = (1 \<le> n \<and> n \<le> 200 \<and> 0 \<le> m \<and> m \<le> 200)"

text \<open>\<open>a = 0.246\<close>, the lattice constant in nm.\<close>

definition lattice_a :: real where
  "lattice_a = 0.246"

text \<open>\<open>diameter = (a / math.pi) * math.sqrt(n**2 + n*m + m**2)\<close>\<close>

definition diameter :: "int \<Rightarrow> int \<Rightarrow> real" where
  "diameter n m = (lattice_a / pi) * sqrt (real_of_int (n\<^sup>2 + n * m + m\<^sup>2))"

text \<open>\<open>metallic = ((n - m) % 3 == 0)\<close>; Python's \<open>%\<close> with a positive modulus is \<open>mod\<close>.\<close>

definition metallic :: "int \<Rightarrow> int \<Rightarrow> bool" where
  "metallic n m = ((n - m) mod 3 = 0)"

text \<open>\<open>bandgap = 0 if metallic else 0.7 / diameter\<close>\<close>

definition bandgap_of :: "bool \<Rightarrow> real \<Rightarrow> error + real" where
  "bandgap_of met d = (if met then Inr 0 else py_truediv 0.7 d)"

definition bandgap :: "int \<Rightarrow> int \<Rightarrow> error + real" where
  "bandgap n m = bandgap_of (metallic n m) (diameter n m)"

subsection \<open>Band structure (lines 38-46)\<close>

text \<open>
  \<open>np.linspace(start, stop, num)\<close> with the end point included: \<open>num\<close> samples,
  \<open>start + i * step\<close> with \<open>step = (stop - start) / (num - 1)\<close>.
\<close>

definition linspace :: "real \<Rightarrow> real \<Rightarrow> nat \<Rightarrow> real list" where
  "linspace start stop num =
     map (\<lambda>i. start + real i * ((stop - start) / real (num - 1))) [0..<num]"

text \<open>\<open>k = np.linspace(-3, 3, 400)\<close>\<close>

definition k_points :: "real list" where
  "k_points = linspace (- 3) 3 400"

text \<open>The two element-wise expressions of lines 40 and 42.\<close>

definition E_metallic :: "real \<Rightarrow> real" where
  "E_metallic k = 0.2 * k"

definition E_semiconducting :: "real \<Rightarrow> real \<Rightarrow> real" where
  "E_semiconducting bg k = sqrt ((bg / 2)\<^sup>2 + 0.25 * k\<^sup>2)"

definition band_E :: "bool \<Rightarrow> real \<Rightarrow> real list \<Rightarrow> real list" where
  "band_E met bg ks =
     (if met then map E_metallic ks else map (E_semiconducting bg) ks)"

text \<open>\<open>ax1.plot(k, E)\<close> and \<open>ax1.plot(k, -E)\<close>: the two plotted branches.\<close>

record band_curve =
  curve_k :: "real list"
  curve_upper :: "real list"
  curve_lower :: "real list"

definition band_structure :: "bool \<Rightarrow> real \<Rightarrow> band_curve" where
  "band_structure met bg =
     \<lparr> curve_k = k_points,
       curve_upper = band_E met bg k_points,
       curve_lower = map uminus (band_E met bg k_points) \<rparr>"

subsection \<open>CNT-FET current (lines 59-64)\<close>

text \<open>Both sliders are \<open>st.slider(label, 0.0, 2.0, 1.0, 0.1)\<close>.\<close>

definition bias_inputs :: "real \<Rightarrow> real \<Rightarrow> bool" where
  "bias_inputs Vg Vd = (0 \<le> Vg \<and> Vg \<le> 2 \<and> 0 \<le> Vd \<and> Vd \<le> 2)"

text \<open>\<open>beta = 10e-6\<close>\<close>

definition beta :: real where
  "beta = 10 / 10 ^ 6"

text \<open>\<open>Vt = bandgap / 2\<close>\<close>

definition Vt :: "real \<Rightarrow> real" where
  "Vt bg = bg / 2"

text \<open>
  \<open>Id = max(0, beta * (Vg - Vt) * Vd)\<close>. Python's \<open>max(0, x)\<close> keeps its first
  argument unless the second is strictly greater.
\<close>

definition py_max0 :: "real \<Rightarrow> real" where
  "py_max0 x = (if x > 0 then x else 0)"

definition Id_fet :: "real \<Rightarrow> real \<Rightarrow> real \<Rightarrow> real" where
  "Id_fet bg Vg Vd = py_max0 (beta * (Vg - Vt bg) * Vd)"

subsection \<open>Chirality heat map (lines 75-84)\<close>

text \<open>\<open>size = st.slider("Grid Size", 10, 40, 20)\<close>\<close>

definition grid_size_input :: "nat \<Rightarrow> bool" where
  "grid_size_input gsize = (10 \<le> gsize \<and> gsize \<le> 40)"

text \<open>
  \<open>d = (a / math.pi) * math.sqrt(i**2 + i*j + j**2) if (i + j) > 0 else 0.0001\<close>,
  for the loop indices \<open>i\<close>, \<open>j\<close> of \<open>range(size)\<close>.
\<close>

definition grid_d :: "nat \<Rightarrow> nat \<Rightarrow> real" where
  "grid_d i j =
     (if i + j > 0 then (lattice_a / pi) * sqrt (real (i\<^sup>2 + i * j + j\<^sup>2)) else 0.0001)"

text \<open>
  The value the loop body stores at \<open>grid[i, j]\<close>. The difference \<open>i - j\<close> is a
  Python integer and may be negative, so it is taken in \<open>int\<close>.
\<close>

definition grid_cell :: "nat \<Rightarrow> nat \<Rightarrow> error + real" where
  "grid_cell i j =
     (if (int i - int j) mod 3 = 0 then Inr 0 else py_truediv 0.7 (grid_d i j))"

text \<open>\<open>grid[i, j] = v\<close> on a matrix held as a list of rows.\<close>

definition set_cell :: "real list list \<Rightarrow> nat \<Rightarrow> nat \<Rightarrow> real \<Rightarrow> real list list" where
  "set_cell g i j v = g[i := (g ! i)[j := v]]"

text \<open>The inner loop \<open>for j in range(size)\<close> over the columns still to visit.\<close>

fun grid_row_loop :: "nat \<Rightarrow> nat list \<Rightarrow> real list list \<Rightarrow> error + real list list" where
  "grid_row_loop i [] g = Inr g"
| "grid_row_loop i (j # js) g =
     (case grid_cell i j of
        Inl e \<Rightarrow> Inl e
      | Inr v \<Rightarrow> grid_row_loop i js (set_cell g i j v))"

text \<open>The outer loop \<open>for i in range(size)\<close> over the rows still to visit.\<close>

fun grid_loop :: "nat list \<Rightarrow> nat \<Rightarrow> real list list \<Rightarrow> error + real list list" where
  "grid_loop [] gsize g = Inr g"
| "grid_loop (i # is) gsize g =
     (case grid_row_loop i [0..<gsize] g of
        Inl e \<Rightarrow> Inl e
      | Inr g' \<Rightarrow> grid_loop is gsize g')"

text \<open>\<open>grid = np.zeros((size, size))\<close> followed by the two loops.\<close>

definition chirality_grid :: "nat \<Rightarrow> error + real list list" where
  "chirality_grid gsize =
     grid_loop [0..<gsize] gsize (replicate gsize (replicate gsize 0))"

text \<open>
  The entry \<open>grid[i, j]\<close> of the finished matrix, as the heat map reads it; numpy
  raises on an index outside the shape.
\<close>

definition grid_at :: "nat \<Rightarrow> nat \<Rightarrow> nat \<Rightarrow> error + real" where
  "grid_at gsize i j =
     (case chirality_grid gsize of
        Inl e \<Rightarrow> Inl e
      | Inr g \<Rightarrow>
          if i < length g \<and> j < length (g ! i) then Inr (g ! i ! j) else Inl IndexError)"

text \<open>
  The number the loop body stores at \<open>(i, j)\<close> when its division does not raise; the
  proofs below show that it never does.
\<close>

definition cell_value :: "nat \<Rightarrow> nat \<Rightarrow> real" where
  "cell_value i j = (if (int i - int j) mod 3 = 0 then 0 else 0.7 / grid_d i j)"

subsection \<open>Double precision\<close>

text \<open>
  Where a claim turns on rounding, the operations are those of Python's \<open>float\<close>, the
  IEEE 754 binary64 format: each result is the exact result rounded to the nearest number
  with a 53-bit significand, ties going to the even significand. A double is held as the
  real number it denotes. The exponent range is not bounded here: the magnitudes the
  resistance lines meet lie far inside it.
\<close>

text \<open>Rounding to the nearest integer, ties to even.\<close>

definition rne :: "real \<Rightarrow> int" where
  "rne x =
     (let f = \<lfloor>x\<rfloor>; r = x - of_int f
      in if r < 1 / 2 then f else if 1 / 2 < r then f + 1 else if even f then f else f + 1)"

text \<open>
  Rounding to binary64: with \<open>2^e \<le> |x| < 2^(e+1)\<close> the spacing of the doubles around
  \<open>x\<close> is \<open>2^(e-52)\<close>.
\<close>

definition fl64 :: "real \<Rightarrow> real" where
  "fl64 x =
     (if x = 0 then 0
      else let s = 2 powr (of_int \<lfloor>log 2 \<bar>x\<bar>\<rfloor> - 52)
           in sgn x * (of_int (rne (\<bar>x\<bar> / s)) * s))"

text \<open>
  The factor by which one rounding can move a positive number, and the relation
  "equal up to \<open>k\<close> roundings" between positive numbers that the error analysis uses.
\<close>

definition unit_w :: real where
  "unit_w = 1 / (1 - 1 / 2 ^ 53)"

definition close_to :: "nat \<Rightarrow> real \<Rightarrow> real \<Rightarrow> bool" where
  "close_to k x y = (0 < x \<and> 0 < y \<and> x \<le> y * unit_w ^ k \<and> y \<le> x * unit_w ^ k)"

subsection \<open>Interconnect resistance (lines 101-104)\<close>


text \<open>
  The three lines are evaluated in double precision: the literals \<open>1e-6\<close>, \<open>1e-4\<close>
  and \<open>1e-7\<close> are the doubles nearest to the decimals, and each of the three products
  and the quotient is rounded. The diameter and the length are taken as they are handed
  over.
\<close>

text \<open>\<open>rho = 1e-6\<close>\<close>

definition rho :: real where
  "rho = fl64 (1 / 10 ^ 6)"

text \<open>\<open>length_cm = length_um * 1e-4\<close>\<close>

definition length_cm :: "real \<Rightarrow> real" where
  "length_cm length_um = fl64 (length_um * fl64 (1 / 10 ^ 4))"

text \<open>\<open>R = rho * (length_cm / (diameter * 1e-7))\<close>\<close>

definition R :: "real \<Rightarrow> real \<Rightarrow> error + real" where
  "R d length_um =
     (case py_truediv (length_cm length_um) (fl64 (d * fl64 (1 / 10 ^ 7))) of
        Inl e \<Rightarrow> Inl e
      | Inr q \<Rightarrow> Inr (fl64 (rho * fl64 q)))"

subsection \<open>Synthesis rule (lines 140-145)\<close>

text \<open>The three \<open>st.info\<close> messages, in the order of the branches.\<close>

datatype recommendation =
    LaserAblation_ArcDischarge
  | CVD_PECVD
  | Fiber_MWCNT

definition synthesis :: "real \<Rightarrow> recommendation" where
  "synthesis d =
     (if d < 1 then LaserAblation_ArcDischarge
      else if d < 2 then CVD_PECVD
      else Fiber_MWCNT)"

subsection \<open>The whole pass\<close>

text \<open>
  The script in the order it runs. An error raised by a line ends the pass there, so
  the earliest failing line decides the result. The qualitative comparison plot of
  lines 115-131 cannot raise and feeds no later line; it is left out.
\<close>

record results =
  res_diameter :: real
  res_metallic :: bool
  res_bandgap :: real
  res_band :: band_curve
  res_Id :: real
  res_grid :: "real list list"
  res_R :: real
  res_synthesis :: recommendation

definition run ::
  "int \<Rightarrow> int \<Rightarrow> real \<Rightarrow> real \<Rightarrow> nat \<Rightarrow> real \<Rightarrow> error + results" where
  "run n m Vg Vd gsize length_um =
     (case bandgap n m of
        Inl e \<Rightarrow> Inl e
      | Inr bg \<Rightarrow>
          (case chirality_grid gsize of
             Inl e \<Rightarrow> Inl e
           | Inr g \<Rightarrow>
               (case R (diameter n m) length_um of
                  Inl e \<Rightarrow> Inl e
                | Inr r \<Rightarrow>
                    Inr \<lparr> res_diameter = diameter n m,
                          res_metallic = metallic n m,
                          res_bandgap = bg,
                          res_band = band_structure (metallic n m) bg,
                          res_Id = Id_fet bg Vg Vd,
                          res_grid = g,
                          res_R = r,
                          res_synthesis = synthesis (diameter n m) \<rparr>)))"

section \<open>Geometry\<close>

text \<open>
  \<open>math.sqrt\<close> raises on a negative argument. The radicand of line 21 is never
  negative, whatever the integers, so \<open>diameter\<close> needs no error branch.
\<close>

lemma radicand_nonneg: "0 \<le> n\<^sup>2 + n * m + (m::int)\<^sup>2"
proof -
  have "0 \<le> (2 * n + m)\<^sup>2 + 3 * m\<^sup>2" by simp
  also have "(2 * n + m)\<^sup>2 + 3 * m\<^sup>2 = 4 * (n\<^sup>2 + n * m + m\<^sup>2)"
    by (simp add: power2_eq_square algebra_simps)
  finally show ?thesis by simp
qed

lemma radicand_pos:
  assumes "1 \<le> n" and "0 \<le> (m::int)"
  shows "0 < n\<^sup>2 + n * m + m\<^sup>2"
proof -
  have "0 < n\<^sup>2" using assms(1) by simp
  moreover have "0 \<le> n * m" using assms by simp
  moreover have "0 \<le> m\<^sup>2" by simp
  ultimately show ?thesis by linarith
qed

lemma lattice_scale_pos: "0 < lattice_a / pi"
  by (simp add: lattice_a_def)

lemma diameter_pos:
  assumes "1 \<le> n" and "0 \<le> m"
  shows "0 < diameter n m"
proof -
  have "0 < real_of_int (n\<^sup>2 + n * m + m\<^sup>2)"
    using radicand_pos [OF assms] by (simp only: of_int_0_less_iff)
  then have "0 < sqrt (real_of_int (n\<^sup>2 + n * m + m\<^sup>2))"
    by simp
  then show ?thesis
    unfolding diameter_def using lattice_scale_pos by (rule mult_pos_pos [rotated])
qed

text \<open>
  C1. For every chirality pair with \<open>n \<ge> 1\<close> and \<open>m \<ge> 0\<close>, the tube is classified
  metallic exactly when \<open>(n - m) mod 3 = 0\<close>, and whenever it is metallic the computed
  bandgap is exactly 0: no error is raised and no other value is produced.
\<close>

theorem metallic_iff_bandgap_zero:
  assumes "1 \<le> n" and "0 \<le> m"
  shows "(metallic n m \<longleftrightarrow> (n - m) mod 3 = 0)
       \<and> (metallic n m \<longrightarrow> bandgap n m = Inr 0)
       \<and> \<not> (metallic n m \<and> bandgap n m \<noteq> Inr 0)"
  by (simp add: metallic_def bandgap_def bandgap_of_def)

theorem metallic_iff_bandgap_zero_witness:
  "(1::int) \<le> 12 \<and> (0::int) \<le> 6 \<and> metallic 12 6 \<and> (12 - 6) mod 3 = (0::int)
   \<and> bandgap 12 6 = Inr 0"
  using metallic_iff_bandgap_zero [of 12 6] by simp

lemma bandgap_semiconducting:
  assumes "1 \<le> n" and "0 \<le> m" and "\<not> metallic n m"
  shows "bandgap n m = Inr (0.7 / diameter n m)"
proof -
  have "diameter n m \<noteq> 0" using diameter_pos [OF assms(1,2)] by simp
  then show ?thesis
    using assms(3) by (simp add: bandgap_def bandgap_of_def py_truediv_def)
qed

text \<open>
  C5. For every \<open>(n, m)\<close> with \<open>n \<ge> 1\<close> and \<open>m \<ge> 0\<close>, the diameter equals
  \<open>(0.246 / pi) * sqrt (n^2 + n*m + m^2)\<close> and is strictly positive, and for every such
  pair that is not metallic the bandgap is computed without error, equals
  \<open>0.7 / diameter\<close> and is strictly positive.
\<close>

theorem diameter_formula_bandgap_positive:
  assumes "1 \<le> n" and "0 \<le> m"
  shows "diameter n m = (0.246 / pi) * sqrt (real_of_int (n\<^sup>2 + n * m + m\<^sup>2))
       \<and> 0 < diameter n m
       \<and> (\<not> metallic n m \<longrightarrow>
            bandgap n m = Inr (0.7 / diameter n m) \<and> 0 < 0.7 / diameter n m)"
proof -
  have pos: "0 < diameter n m" by (rule diameter_pos [OF assms])
  have "diameter n m = (0.246 / pi) * sqrt (real_of_int (n\<^sup>2 + n * m + m\<^sup>2))"
    by (simp add: diameter_def lattice_a_def)
  moreover have "0 < 0.7 / diameter n m" using pos by simp
  ultimately show ?thesis
    using pos bandgap_semiconducting [OF assms] by blast
qed

theorem diameter_formula_bandgap_positive_witness:
  "(1::int) \<le> 10 \<and> (0::int) \<le> 0 \<and> \<not> metallic 10 0
   \<and> diameter 10 0 = (0.246 / pi) * 10 \<and> 0 < diameter 10 0
   \<and> bandgap 10 0 = Inr (0.7 / diameter 10 0) \<and> 0 < 0.7 / diameter 10 0"
proof -
  have nm: "\<not> metallic 10 0" by (simp add: metallic_def)
  show ?thesis
    using diameter_formula_bandgap_positive [of 10 0] nm by simp
qed

section \<open>CNT-FET current\<close>

lemma py_max0_max: "py_max0 x = max 0 x"
  by (simp add: py_max0_def max_def)

text \<open>
  C4. For every gate voltage and drain voltage in \<open>[0, 2]\<close> and every bandgap the
  geometry hands over, the current estimate equals
  \<open>max 0 (beta * (Vg - bandgap / 2) * Vd)\<close> with \<open>beta = 10e-6\<close>; it is never
  negative, and at or below the threshold \<open>bandgap / 2\<close> it is exactly zero.
\<close>

theorem Id_fet_clamped:
  assumes "bias_inputs Vg Vd"
  shows "Id_fet bg Vg Vd = max 0 ((10 / 10 ^ 6) * (Vg - bg / 2) * Vd)
       \<and> 0 \<le> Id_fet bg Vg Vd
       \<and> (Vg \<le> bg / 2 \<longrightarrow> Id_fet bg Vg Vd = 0)"
proof -
  have eq: "Id_fet bg Vg Vd = max 0 ((10 / 10 ^ 6) * (Vg - bg / 2) * Vd)"
    by (simp only: Id_fet_def py_max0_max beta_def Vt_def)
  have nonneg: "0 \<le> Id_fet bg Vg Vd"
    by (simp only: eq max.cobounded1)
  have below: "Id_fet bg Vg Vd = 0" if "Vg \<le> bg / 2"
  proof -
    have "0 \<le> Vd" using assms by (simp add: bias_inputs_def)
    moreover have "Vg - bg / 2 \<le> 0" using that by simp
    ultimately have "(Vg - bg / 2) * Vd \<le> 0"
      by (rule mult_nonpos_nonneg [rotated])
    then have "(10 / 10 ^ 6) * (Vg - bg / 2) * Vd \<le> 0"
      by (simp add: mult.assoc mult_le_0_iff)
    then show ?thesis by (simp add: eq max_def)
  qed
  from eq nonneg below show ?thesis by blast
qed

theorem Id_fet_clamped_witness:
  "bias_inputs 0.3 1 \<and> (0.3::real) \<le> 1 / 2 \<and> Id_fet 1 0.3 1 = 0
   \<and> Id_fet 1 0.3 1 = max 0 ((10 / 10 ^ 6) * (0.3 - 1 / 2) * 1)"
proof -
  have b: "bias_inputs 0.3 1" by (simp add: bias_inputs_def)
  show ?thesis using Id_fet_clamped [OF b, of 1] b by simp
qed

section \<open>Synthesis rule\<close>

text \<open>
  C6. The synthesis recommendation is a step function of the diameter alone, with
  breakpoints at exactly 1 and 2: a diameter below 1 selects laser ablation / arc
  discharge, a diameter from 1 up to but excluding 2 selects CVD / PECVD, and a diameter
  of 2 or more selects fiber / MWCNT growth; the diameter 1 itself selects CVD / PECVD
  and the diameter 2 itself selects fiber / MWCNT growth.
\<close>

theorem synthesis_step:
  "(d < 1 \<longrightarrow> synthesis d = LaserAblation_ArcDischarge)
   \<and> (1 \<le> d \<and> d < 2 \<longrightarrow> synthesis d = CVD_PECVD)
   \<and> (2 \<le> d \<longrightarrow> synthesis d = Fiber_MWCNT)
   \<and> synthesis 1 = CVD_PECVD
   \<and> synthesis 2 = Fiber_MWCNT"
  by (simp add: synthesis_def)

theorem synthesis_step_witness:
  "synthesis 0.99 = LaserAblation_ArcDischarge
   \<and> synthesis 1.5 = CVD_PECVD
   \<and> synthesis 2.01 = Fiber_MWCNT"
  using synthesis_step [of "0.99"] synthesis_step [of "1.5"] synthesis_step [of "2.01"]
  by simp

section \<open>Double precision\<close>

lemma rne_close: "\<bar>of_int (rne x) - x\<bar> \<le> 1 / 2"
proof -
  have "of_int \<lfloor>x\<rfloor> \<le> x" and "x < of_int \<lfloor>x\<rfloor> + 1" by linarith+
  then show ?thesis
    by (auto simp add: rne_def Let_def)
qed

lemma fl64_pos_scale:
  assumes "0 < x" and s_def: "s = 2 powr (of_int \<lfloor>log 2 x\<rfloor> - 52)"
  shows "0 < s" "2 ^ 52 * s \<le> x" "x < 2 ^ 53 * s"
    "fl64 x = of_int (rne (x / s)) * s"
proof -
  let ?e = "\<lfloor>log 2 x\<rfloor>"
  show s: "0 < s" by (simp add: s_def)
  have "\<lfloor>log 2 x\<rfloor> = ?e" by simp
  then have b: "2 powr (of_int ?e) \<le> x \<and> x < 2 powr (of_int (?e + 1))"
    using assms(1) by (subst (asm) floor_log_eq_powr_iff) simp_all
  have e1: "2 powr (of_int ?e) = 2 ^ 52 * s"
    by (simp add: s_def powr_diff)
  have e2: "2 powr (of_int (?e + 1)) = 2 ^ 53 * s"
    by (simp add: s_def powr_diff powr_add)
  show "2 ^ 52 * s \<le> x" using b e1 by simp
  show "x < 2 ^ 53 * s" using b e2 by simp
  show "fl64 x = of_int (rne (x / s)) * s"
    using assms(1) by (simp add: fl64_def s_def Let_def)
qed

lemma fl64_error:
  assumes "0 < x"
  shows "\<bar>fl64 x - x\<bar> \<le> x / 2 ^ 53"
proof -
  define s :: real where "s = 2 powr (of_int \<lfloor>log 2 x\<rfloor> - 52)"
  note f = fl64_pos_scale [OF assms s_def]
  have "\<bar>of_int (rne (x / s)) - x / s\<bar> \<le> 1 / 2" by (rule rne_close)
  then have "\<bar>of_int (rne (x / s)) - x / s\<bar> * s \<le> 1 / 2 * s"
    using f(1) by (simp only: mult_le_cancel_right_pos)
  moreover have "\<bar>of_int (rne (x / s)) - x / s\<bar> * s = \<bar>fl64 x - x\<bar>"
  proof -
    have "\<bar>of_int (rne (x / s)) - x / s\<bar> * s = \<bar>(of_int (rne (x / s)) - x / s) * s\<bar>"
      using f(1) by (simp add: abs_mult)
    also have "(of_int (rne (x / s)) - x / s) * s = fl64 x - x"
      using f(1) by (simp add: f(4) algebra_simps)
    finally show ?thesis .
  qed
  ultimately have "\<bar>fl64 x - x\<bar> \<le> s / 2" by simp
  also have "s / 2 \<le> x / 2 ^ 53" using f(2) by simp
  finally show ?thesis .
qed

lemma fl64_neg: "fl64 (- x) = - fl64 x"
  by (simp add: fl64_def Let_def sgn_minus)

lemma unit_w_bounds: "1 < unit_w" "(1 + 1 / 2 ^ 53) \<le> unit_w" "1 / unit_w = 1 - 1 / 2 ^ 53"
  by (simp_all add: unit_w_def)

lemma close_to_fl64:
  assumes "0 < x"
  shows "close_to 1 (fl64 x) x"
proof -
  from fl64_error [OF assms] have lo: "x - x / 2 ^ 53 \<le> fl64 x" and hi: "fl64 x \<le> x + x / 2 ^ 53"
    by linarith+
  have w: "0 < unit_w" using unit_w_bounds(1) by simp
  have "x + x / 2 ^ 53 = x * (1 + 1 / 2 ^ 53)" by (simp add: algebra_simps)
  also have "\<dots> \<le> x * unit_w" using assms unit_w_bounds(2) by (simp only: mult_le_cancel_left_pos)
  finally have up: "fl64 x \<le> x * unit_w" using hi by simp
  have "x / unit_w = x * (1 / unit_w)" by simp
  also have "\<dots> = x * (1 - 1 / 2 ^ 53)" by (simp only: unit_w_bounds(3))
  also have "\<dots> = x - x / 2 ^ 53" by (simp only: right_diff_distrib mult_1_right times_divide_eq_right)
  finally have "x / unit_w = x - x / 2 ^ 53" .
  then have "x / unit_w \<le> fl64 x" using lo by (simp only:)
  then have dn: "x \<le> fl64 x * unit_w" using w by (simp add: pos_divide_le_eq)
  have "0 < x - x / 2 ^ 53" using assms by simp
  then have "0 < fl64 x" using lo by linarith
  with assms up dn show ?thesis by (simp add: close_to_def)
qed











lemma fl64_zero: "fl64 0 = 0"
  by (simp add: fl64_def)

lemma fl64_nonzero:
  assumes "x \<noteq> 0"
  shows "fl64 x \<noteq> 0"
proof (cases "0 < x")
  case True
  from close_to_fl64 [OF True] show ?thesis by (simp add: close_to_def)
next
  case False
  with assms have "0 < - x" by simp
  from close_to_fl64 [OF this] have "0 < fl64 (- x)" by (simp add: close_to_def)
  then show ?thesis by (simp add: fl64_neg)
qed



section \<open>Interconnect resistance\<close>

lemma R_value:
  assumes "d \<noteq> 0"
  shows "R d L =
    Inr (fl64 (fl64 (1 / 10 ^ 6) * fl64 (fl64 (L * fl64 (1 / 10 ^ 4)) / fl64 (d * fl64 (1 / 10 ^ 7)))))"
proof -
  have "fl64 (1 / 10 ^ 7) \<noteq> 0" by (rule fl64_nonzero) simp
  with assms have "d * fl64 (1 / 10 ^ 7) \<noteq> 0" by simp
  then have "fl64 (d * fl64 (1 / 10 ^ 7)) \<noteq> 0" by (rule fl64_nonzero)
  then show ?thesis
    by (simp add: R_def py_truediv_def rho_def length_cm_def)
qed














section \<open>Chirality heat map\<close>

lemma grid_d_pos: "0 < grid_d i j"
proof (cases "i + j > 0")
  case True
  then have "0 < i\<^sup>2 + i * j + j\<^sup>2" by (cases "i = 0") auto
  then have "0 < sqrt (real (i\<^sup>2 + i * j + j\<^sup>2))" by (simp only: real_sqrt_gt_0_iff of_nat_0_less_iff)
  then have "0 < (lattice_a / pi) * sqrt (real (i\<^sup>2 + i * j + j\<^sup>2))"
    using lattice_scale_pos by (rule mult_pos_pos [rotated])
  with True show ?thesis by (simp only: grid_d_def if_True)
next
  case False
  then show ?thesis by (simp add: grid_d_def)
qed

lemma grid_cell_value: "grid_cell i j = Inr (cell_value i j)"
  using grid_d_pos [of i j] by (simp add: grid_cell_def cell_value_def py_truediv_def)

lemma length_set_cell: "length (set_cell g i j v) = length g"
  by (simp add: set_cell_def)

lemma length_row_set_cell: "r < length g \<Longrightarrow> length (set_cell g i j v ! r) = length (g ! r)"
  by (cases "r = i") (simp_all add: set_cell_def)

lemma nth_set_cell:
  assumes "r < length g" and "c < length (g ! r)"
  shows "set_cell g i j v ! r ! c = (if r = i \<and> c = j then v else g ! r ! c)"
proof (cases "r = i")
  case True
  with assms show ?thesis by (simp add: set_cell_def nth_list_update)
next
  case False
  then show ?thesis by (simp add: set_cell_def)
qed

lemma grid_row_loop_result:
  "\<exists>g'. grid_row_loop i js g = Inr g'
     \<and> length g' = length g
     \<and> (\<forall>r < length g. length (g' ! r) = length (g ! r))
     \<and> (\<forall>r < length g. \<forall>c < length (g ! r).
          g' ! r ! c = (if r = i \<and> c \<in> set js then cell_value i c else g ! r ! c))"
proof (induction js arbitrary: g)
  case Nil
  show ?case by simp
next
  case (Cons j js)
  let ?h = "set_cell g i j (cell_value i j)"
  from Cons.IH [of ?h] obtain g' where
    run: "grid_row_loop i js ?h = Inr g'" and
    len: "length g' = length ?h" and
    rows: "\<forall>r < length ?h. length (g' ! r) = length (?h ! r)" and
    vals: "\<forall>r < length ?h. \<forall>c < length (?h ! r).
          g' ! r ! c = (if r = i \<and> c \<in> set js then cell_value i c else ?h ! r ! c)"
    by blast
  have "grid_row_loop i (j # js) g = Inr g'"
    using run by (simp add: grid_cell_value)
  moreover have "length g' = length g"
    using len by (simp add: length_set_cell)
  moreover have "\<forall>r < length g. length (g' ! r) = length (g ! r)"
    using rows by (simp add: length_set_cell length_row_set_cell)
  moreover have "\<forall>r < length g. \<forall>c < length (g ! r).
          g' ! r ! c = (if r = i \<and> c \<in> set (j # js) then cell_value i c else g ! r ! c)"
  proof (intro allI impI)
    fix r c assume r: "r < length g" and c: "c < length (g ! r)"
    then have "g' ! r ! c = (if r = i \<and> c \<in> set js then cell_value i c else ?h ! r ! c)"
      using vals by (simp add: length_set_cell length_row_set_cell)
    then show "g' ! r ! c = (if r = i \<and> c \<in> set (j # js) then cell_value i c else g ! r ! c)"
      using r c by (auto simp add: nth_set_cell)
  qed
  ultimately show ?case by blast
qed

lemma grid_loop_result:
  "\<exists>g'. grid_loop rs gsize g = Inr g'
     \<and> length g' = length g
     \<and> (\<forall>r < length g. length (g' ! r) = length (g ! r))
     \<and> (\<forall>r < length g. \<forall>c < length (g ! r).
          g' ! r ! c = (if r \<in> set rs \<and> c < gsize then cell_value r c else g ! r ! c))"
proof (induction rs arbitrary: g)
  case Nil
  show ?case by simp
next
  case (Cons i rs)
  from grid_row_loop_result [of i "[0..<gsize]" g] obtain h where
    hrun: "grid_row_loop i [0..<gsize] g = Inr h" and
    hlen: "length h = length g" and
    hrows: "\<forall>r < length g. length (h ! r) = length (g ! r)" and
    hvals: "\<forall>r < length g. \<forall>c < length (g ! r).
          h ! r ! c = (if r = i \<and> c \<in> set [0..<gsize] then cell_value i c else g ! r ! c)"
    by blast
  from Cons.IH [of h] obtain g' where
    run: "grid_loop rs gsize h = Inr g'" and
    len: "length g' = length h" and
    rows: "\<forall>r < length h. length (g' ! r) = length (h ! r)" and
    vals: "\<forall>r < length h. \<forall>c < length (h ! r).
          g' ! r ! c = (if r \<in> set rs \<and> c < gsize then cell_value r c else h ! r ! c)"
    by blast
  have "grid_loop (i # rs) gsize g = Inr g'"
    using hrun run by simp
  moreover have "length g' = length g"
    using len hlen by simp
  moreover have "\<forall>r < length g. length (g' ! r) = length (g ! r)"
    using rows hrows hlen by simp
  moreover have "\<forall>r < length g. \<forall>c < length (g ! r).
          g' ! r ! c = (if r \<in> set (i # rs) \<and> c < gsize then cell_value r c else g ! r ! c)"
  proof (intro allI impI)
    fix r c assume r: "r < length g" and c: "c < length (g ! r)"
    have "g' ! r ! c = (if r \<in> set rs \<and> c < gsize then cell_value r c else h ! r ! c)"
      using vals r c hlen hrows by simp
    moreover have "h ! r ! c = (if r = i \<and> c < gsize then cell_value i c else g ! r ! c)"
      using hvals r c by simp
    ultimately show "g' ! r ! c = (if r \<in> set (i # rs) \<and> c < gsize then cell_value r c else g ! r ! c)"
      by auto
  qed
  ultimately show ?case by blast
qed

lemma chirality_grid_closed_form:
  "chirality_grid gsize = Inr (map (\<lambda>i. map (cell_value i) [0..<gsize]) [0..<gsize])"
proof -
  let ?z = "replicate gsize (replicate gsize (0::real))"
  from grid_loop_result [of "[0..<gsize]" gsize ?z] obtain g' where
    run: "grid_loop [0..<gsize] gsize ?z = Inr g'" and
    len: "length g' = length ?z" and
    rows: "\<forall>r < length ?z. length (g' ! r) = length (?z ! r)" and
    vals: "\<forall>r < length ?z. \<forall>c < length (?z ! r).
          g' ! r ! c = (if r \<in> set [0..<gsize] \<and> c < gsize then cell_value r c else ?z ! r ! c)"
    by blast
  have "g' = map (\<lambda>i. map (cell_value i) [0..<gsize]) [0..<gsize]"
  proof (rule nth_equalityI)
    show "length g' = length (map (\<lambda>i. map (cell_value i) [0..<gsize]) [0..<gsize])"
      using len by simp
  next
    fix r assume "r < length g'"
    then have r: "r < gsize" using len by simp
    have "g' ! r = map (cell_value r) [0..<gsize]"
    proof (rule nth_equalityI)
      show "length (g' ! r) = length (map (cell_value r) [0..<gsize])"
        using rows r by simp
    next
      fix c assume "c < length (g' ! r)"
      then have c: "c < gsize" using rows r by simp
      show "g' ! r ! c = map (cell_value r) [0..<gsize] ! c"
        using vals r c by simp
    qed
    then show "g' ! r = map (\<lambda>i. map (cell_value i) [0..<gsize]) [0..<gsize] ! r"
      using r by simp
  qed
  with run show ?thesis by (simp add: chirality_grid_def)
qed

lemma grid_at_value:
  assumes "i < gsize" and "j < gsize"
  shows "grid_at gsize i j = Inr (cell_value i j)"
  using assms by (simp add: grid_at_def chirality_grid_closed_form)

lemma cell_value_formula:
  assumes "0 < i + j"
  shows "cell_value i j =
      (if (int i - int j) mod 3 = 0 then 0
       else 0.7 / ((0.246 / pi) * sqrt (real (i\<^sup>2 + i * j + j\<^sup>2))))"
  using assms by (simp add: cell_value_def grid_d_def lattice_a_def)

lemma run_grid:
  assumes "run n m Vg Vd gsize L = Inr r"
  shows "chirality_grid gsize = Inr (res_grid r)"
  using assms by (auto simp add: run_def split: sum.splits)

lemma run_succeeds:
  assumes "1 \<le> n" and "0 \<le> m"
  shows "\<exists>r. run n m Vg Vd gsize L = Inr r"
proof -
  have d: "diameter n m \<noteq> 0" using diameter_pos [OF assms] by simp
  obtain bg where bg: "bandgap n m = Inr bg"
    using d by (cases "metallic n m") (simp_all add: bandgap_def bandgap_of_def py_truediv_def)
  show ?thesis
    by (simp add: run_def bg chirality_grid_closed_form R_value [OF d])
qed

text \<open>
  C8. For every grid size \<open>S\<close> in \<open>[10, 40]\<close> and every cell \<open>(i, j)\<close> with
  \<open>i, j < S\<close> and \<open>i + j > 0\<close>, the loops finish without error and the grid value is
  exactly 0 when \<open>(i - j) mod 3 = 0\<close> and otherwise
  \<open>0.7 / ((0.246 / pi) * sqrt (i^2 + i*j + j^2))\<close>; the value does not depend on the
  selected \<open>(n, m)\<close>: every pass of the script that completes, whatever its other inputs,
  holds this value in the cell.
\<close>

theorem grid_cells:
  assumes "grid_size_input S" and "i < S" and "j < S" and "0 < i + j"
  shows "grid_at S i j =
           Inr (if (int i - int j) mod 3 = 0 then 0
                else 0.7 / ((0.246 / pi) * sqrt (real (i\<^sup>2 + i * j + j\<^sup>2))))
       \<and> (\<forall>n m Vg Vd L r. run n m Vg Vd S L = Inr r \<longrightarrow>
            res_grid r ! i ! j =
              (if (int i - int j) mod 3 = 0 then 0
               else 0.7 / ((0.246 / pi) * sqrt (real (i\<^sup>2 + i * j + j\<^sup>2)))))"
proof -
  have at: "grid_at S i j =
           Inr (if (int i - int j) mod 3 = 0 then 0
                else 0.7 / ((0.246 / pi) * sqrt (real (i\<^sup>2 + i * j + j\<^sup>2))))"
    by (simp only: grid_at_value [OF assms(2,3)] cell_value_formula [OF assms(4)])
  have "res_grid r ! i ! j =
              (if (int i - int j) mod 3 = 0 then 0
               else 0.7 / ((0.246 / pi) * sqrt (real (i\<^sup>2 + i * j + j\<^sup>2))))"
    if "run n m Vg Vd S L = Inr r" for n m Vg Vd L r
  proof -
    have "res_grid r = map (\<lambda>i. map (cell_value i) [0..<S]) [0..<S]"
      using run_grid [OF that] by (simp add: chirality_grid_closed_form)
    then have "res_grid r ! i ! j = cell_value i j"
      using assms(2,3) by simp
    then show ?thesis by (simp only: cell_value_formula [OF assms(4)])
  qed
  with at show ?thesis by blast
qed

theorem grid_cells_witness:
  "grid_size_input 10 \<and> grid_at 10 4 1 = Inr 0
   \<and> grid_at 10 1 0 = Inr (0.7 / (0.246 / pi))
   \<and> (\<exists>r. run 12 6 1 1 10 5 = Inr r \<and> res_grid r ! 1 ! 0 = 0.7 / (0.246 / pi))"
proof -
  have s: "grid_size_input 10" by (simp add: grid_size_input_def)
  have a: "grid_at 10 4 1 = Inr 0"
    using grid_cells [OF s, of 4 1] by simp
  note b = grid_cells [OF s, of 1 0]
  have b1: "grid_at 10 1 0 = Inr (0.7 / (0.246 / pi))"
    using b by simp
  obtain r where r: "run 12 6 1 1 10 5 = Inr r"
    using run_succeeds [of 12 6 1 1 10 5] by auto
  have "res_grid r ! 1 ! 0 = 0.7 / (0.246 / pi)"
    using b r by simp
  with s a b1 r show ?thesis by blast
qed

text \<open>
  C2, as stated, fails: at grid size 10 the cell \<open>(0, 0)\<close> holds 0, not
  \<open>0.7 / 0.0001\<close>, because \<open>(0 - 0) mod 3 = 0\<close> selects the branch that stores 0.
\<close>

theorem grid_origin_not_large: "grid_at 10 0 0 = Inr 0 \<and> grid_at 10 0 0 \<noteq> Inr (0.7 / 0.0001)"
  by (simp add: grid_at_value cell_value_def)

text \<open>
  C2, amended. For every grid size in \<open>[10, 40]\<close> the cell at index \<open>(0, 0)\<close> uses
  the fallback diameter \<open>0.0001\<close>, and the value stored there is exactly 0, a finite
  number: the quotient \<open>0.7 / 0.0001\<close> is never formed.
\<close>

theorem grid_origin_zero:
  assumes "grid_size_input S"
  shows "grid_d 0 0 = 0.0001 \<and> grid_at S 0 0 = Inr 0"
proof -
  have "0 < S" using assms by (simp add: grid_size_input_def)
  then show ?thesis by (simp add: grid_d_def grid_at_value cell_value_def)
qed

theorem grid_origin_zero_witness:
  "grid_size_input 20 \<and> grid_d 0 0 = 0.0001 \<and> grid_at 20 0 0 = Inr 0"
proof -
  have s: "grid_size_input 20" by (simp add: grid_size_input_def)
  show ?thesis using grid_origin_zero [OF s] s by simp
qed

section \<open>The degenerate tube\<close>

text \<open>
  C3, as stated, fails: evaluated at \<open>n = 0\<close>, \<open>m = 0\<close>, lines 21-23 raise no error;
  the bandgap is the number 0.
\<close>

theorem degenerate_not_rejected: "\<not> isl (bandgap 0 0) \<and> bandgap 0 0 = Inr 0"
  by (simp add: bandgap_def bandgap_of_def metallic_def)

text \<open>
  C3, amended. The pair \<open>n = 0\<close>, \<open>m = 0\<close> is not a value the sidebar hands over
  (\<open>n\<close> has \<open>min_value = 1\<close>), and the script has no degenerate-tube error. Evaluated
  there, lines 21-23 give diameter 0, the metallic class and the bandgap exactly 0, so
  neither infinity nor NaN; the pass then ends at line 104 with the division by the zero
  diameter.
\<close>

theorem degenerate_tube:
  "\<not> chirality_inputs 0 m
   \<and> diameter 0 0 = 0 \<and> metallic 0 0 \<and> bandgap 0 0 = Inr 0
   \<and> run 0 0 Vg Vd gsize L = Inl ZeroDivisionError"
proof -
  have d: "diameter 0 0 = 0" by (simp add: diameter_def)
  have b: "bandgap 0 0 = Inr 0" by (simp add: bandgap_def bandgap_of_def metallic_def)
  have "run 0 0 Vg Vd gsize L = Inl ZeroDivisionError"
    by (simp add: run_def b d chirality_grid_closed_form R_def py_truediv_def fl64_zero)
  with d b show ?thesis by (simp add: chirality_inputs_def metallic_def)
qed

section \<open>Band structure\<close>

lemma length_k_points: "length k_points = 400"
  by (simp add: k_points_def linspace_def)

lemma nth_k_points:
  assumes "i < 400"
  shows "k_points ! i = - 3 + real i * (6 / 399)"
  using assms by (simp add: k_points_def linspace_def)

lemma k_points_range:
  assumes "k \<in> set k_points"
  shows "- 3 \<le> k \<and> k \<le> 3"
proof -
  from assms obtain i where i: "i < 400" and k: "k = k_points ! i"
    by (auto simp add: in_set_conv_nth length_k_points)
  have "real i \<le> 399" using i by simp
  then have "real i * (6 / 399) \<le> 6" by simp
  moreover have "0 \<le> real i * (6 / 399)" by simp
  ultimately show ?thesis
    unfolding k nth_k_points [OF i] by linarith
qed

lemma k_points_spacing:
  assumes "i < 399"
  shows "k_points ! Suc i - k_points ! i = 6 / 399"
proof -
  have "Suc i < 400" and "i < 400" using assms by simp_all
  then show ?thesis by (simp add: nth_k_points algebra_simps)
qed

text \<open>
  C9. The band-structure curve is computed over exactly 400 wavevector points, evenly
  spaced (step \<open>6 / 399\<close>) from \<open>-3\<close> to \<open>3\<close>; for a metallic tube each energy
  value is \<open>0.2 * k\<close>, for a semiconducting tube each energy value is
  \<open>sqrt ((bandgap / 2)^2 + 0.25 * k^2)\<close>, and the curve carries both the branch
  \<open>+E(k)\<close> and the branch \<open>-E(k)\<close> over the same points.
\<close>

theorem band_curve_samples:
  "length k_points = 400
   \<and> k_points ! 0 = - 3 \<and> k_points ! 399 = 3
   \<and> (\<forall>i < 399. k_points ! Suc i - k_points ! i = 6 / 399)
   \<and> (\<forall>k \<in> set k_points. - 3 \<le> k \<and> k \<le> 3)
   \<and> curve_k (band_structure met bg) = k_points
   \<and> curve_upper (band_structure True bg) = map (\<lambda>k. 0.2 * k) k_points
   \<and> curve_upper (band_structure False bg) =
        map (\<lambda>k. sqrt ((bg / 2)\<^sup>2 + 0.25 * k\<^sup>2)) k_points
   \<and> curve_lower (band_structure met bg) = map uminus (curve_upper (band_structure met bg))"
proof -
  have ends: "k_points ! 0 = - 3 \<and> k_points ! 399 = 3"
    by (simp add: nth_k_points)
  have up_m: "curve_upper (band_structure True bg) = map (\<lambda>k. 0.2 * k) k_points"
    by (simp add: band_structure_def band_E_def E_metallic_def)
  have up_s: "curve_upper (band_structure False bg) =
        map (\<lambda>k. sqrt ((bg / 2)\<^sup>2 + 0.25 * k\<^sup>2)) k_points"
    by (simp add: band_structure_def band_E_def E_semiconducting_def)
  have rest: "curve_k (band_structure met bg) = k_points
     \<and> curve_lower (band_structure met bg) = map uminus (curve_upper (band_structure met bg))"
    by (simp add: band_structure_def)
  from length_k_points ends k_points_spacing k_points_range up_m up_s rest
  show ?thesis by blast
qed

theorem band_curve_samples_witness:
  "length k_points = 400
   \<and> k_points ! Suc 0 - k_points ! 0 = 6 / 399
   \<and> k_points ! 7 \<in> set k_points \<and> - 3 \<le> k_points ! 7 \<and> k_points ! 7 \<le> 3
   \<and> curve_upper (band_structure True 0) = map (\<lambda>k. 0.2 * k) k_points"
proof -
  note inst = band_curve_samples [of True 0]
  have mem: "k_points ! 7 \<in> set k_points"
    using inst by (simp add: nth_mem)
  have "(0::nat) < 399" by simp
  then have sp: "k_points ! Suc 0 - k_points ! 0 = 6 / 399"
    using inst by blast
  have rng: "- 3 \<le> k_points ! 7 \<and> k_points ! 7 \<le> 3"
    using inst mem by blast
  from inst mem sp rng show ?thesis by blast
qed















end
